theory Spec2Isabelle
  imports Main "HOL-Library.Multiset" "HOL-Library.Char_ord" "HOL-Library.List_Lexorder"
begin

section \<open>Data model\<close>

text \<open>
  The admin module reads two kinds of objects. A user offers \<open>id\<close>, \<open>first_name\<close>,
  \<open>username\<close> and the accessor \<open>get_full_name()\<close>, whose value is kept as a field. An
  impersonation log record refers to two users and carries the session key and the two
  session timestamps; \<open>session_ended_at\<close> is nullable.
\<close>

record user =
  user_id :: int
  first_name :: string
  get_full_name :: string
  username :: string

record impersonation_log =
  impersonator :: user
  impersonating :: user
  session_key :: string
  session_started_at :: int
  session_ended_at :: "int option"

text \<open>A queryset is the ordered collection of rows it evaluates to.\<close>

type_synonym queryset = "impersonation_log list"

text \<open>The foreign key column \<open>impersonator_id\<close> holds the primary key of the impersonator.\<close>

definition impersonator_id :: "impersonation_log \<Rightarrow> int" where
  "impersonator_id q = user_id (impersonator q)"

section \<open>Settings\<close>

text \<open>
  \<open>MAX_FILTER_SIZE = getattr(settings, 'IMPERSONATE_MAX_FILTER_SIZE', 100)\<close>: the argument is
  the setting, \<open>None\<close> when the settings module does not define it.
\<close>

definition MAX_FILTER_SIZE :: "int option \<Rightarrow> int" where
  "MAX_FILTER_SIZE setting = (case setting of None \<Rightarrow> 100 | Some n \<Rightarrow> n)"

section \<open>friendly_name\<close>

definition friendly_name :: "user \<Rightarrow> string" where
  "friendly_name u =
     (if get_full_name u \<noteq> '''' then get_full_name u else username u)"

section \<open>SessionStateFilter\<close>

text \<open>
  \<open>self.value()\<close> is the request parameter of the filter: \<open>None\<close> when it is absent,
  the submitted string otherwise.
\<close>

definition SessionStateFilter_lookups :: "(string \<times> string) list" where
  "SessionStateFilter_lookups =
     [(''incomplete'', ''Incomplete''), (''complete'', ''Complete'')]"

definition SessionStateFilter_queryset :: "string option \<Rightarrow> queryset \<Rightarrow> queryset" where
  "SessionStateFilter_queryset v qs =
     (if v = Some ''incomplete'' then filter (\<lambda>q. session_ended_at q = None) qs
      else if v = Some ''complete'' then filter (\<lambda>q. session_ended_at q \<noteq> None) qs
      else qs)"

section \<open>ImpersonatorFilter\<close>

text \<open>
  \<open>set([q.impersonator for q in qs])\<close>: model instances compare and hash by primary key, and
  adding an element equal to one already present leaves the set as it is. The set under
  construction is kept as the list of its elements in insertion order.
\<close>

definition set_add :: "user list \<Rightarrow> user \<Rightarrow> user list" where
  "set_add s u = (if user_id u \<in> user_id ` set s then s else s @ [u])"

fun set_from :: "user list \<Rightarrow> user list \<Rightarrow> user list" where
  "set_from s [] = s"
| "set_from s (u # us) = set_from (set_add s u) us"

definition order_by_impersonator_first_name :: "queryset \<Rightarrow> queryset" where
  "order_by_impersonator_first_name qs = sort_key (\<lambda>q. first_name (impersonator q)) qs"

text \<open>
  Iterating a Python set visits its elements in the order of the hash table, which the
  language leaves open; \<open>set_iter\<close> is that order, as a function of the elements in insertion
  order. The early \<open>return\<close> of the generator yields no option at all.
\<close>

definition ImpersonatorFilter_lookups ::
  "(user list \<Rightarrow> user list) \<Rightarrow> int \<Rightarrow> queryset \<Rightarrow> (int \<times> string) list" where
  "ImpersonatorFilter_lookups set_iter max_filter_size admin_qs =
     (let qs = order_by_impersonator_first_name admin_qs;
          impersonators = set_from [] (map impersonator qs)
      in if int (length impersonators) > max_filter_size then []
         else map (\<lambda>i. (user_id i, friendly_name i)) (set_iter impersonators))"

text \<open>
  \<open>queryset.filter(impersonator_id=self.value())\<close> hands the submitted string to the query
  layer. Building the filter converts the string to an integer key and raises
  \<open>ValueError\<close> when it denotes none; \<open>to_python\<close> is that conversion. The queryset is
  lazy: the rows are fetched when it is evaluated, and the key column holds signed 64-bit
  integers, so that evaluating with a key outside that range raises \<open>OverflowError\<close>.
  The result below is the outcome of building and evaluating the returned queryset.
\<close>

datatype error = ValueError | OverflowError

definition key_in_range :: "int \<Rightarrow> bool" where
  "key_in_range k = (- (2 ^ 63) \<le> k \<and> k \<le> 2 ^ 63 - 1)"

definition ImpersonatorFilter_queryset ::
  "(string \<Rightarrow> int option) \<Rightarrow> string option \<Rightarrow> queryset \<Rightarrow> error + queryset" where
  "ImpersonatorFilter_queryset to_python v qs =
     (if v = None \<or> v = Some '''' then Inr qs
      else (case to_python (the v) of
              None \<Rightarrow> Inl ValueError
            | Some k \<Rightarrow>
                if key_in_range k then Inr (filter (\<lambda>q. impersonator_id q = k) qs)
                else Inl OverflowError))"

section \<open>ImpersonationLogAdmin\<close>

datatype list_filter_entry = SessionStateFilter | ImpersonatorFilter | FieldName string

definition list_display :: "string list" where
  "list_display =
     [''impersonator_'', ''impersonating_'', ''session_key'', ''session_started_at'',
      ''duration'']"

definition readonly_fields :: "string list" where
  "readonly_fields =
     [''impersonator'', ''impersonating'', ''session_key'', ''session_started_at'',
      ''session_ended_at'', ''duration'']"

definition list_filter :: "list_filter_entry list" where
  "list_filter = [SessionStateFilter, ImpersonatorFilter, FieldName ''session_started_at'']"

text \<open>
  The methods \<open>impersonator_\<close> and \<open>impersonating_\<close> of the admin class; a constant name
  cannot end with an underscore, hence the suffix.
\<close>

definition impersonator_col :: "impersonation_log \<Rightarrow> string" where
  "impersonator_col obj = friendly_name (impersonator obj)"

definition impersonating_col :: "impersonation_log \<Rightarrow> string" where
  "impersonating_col obj = friendly_name (impersonating obj)"

text \<open>The number of distinct impersonator identities of a collection.\<close>

definition distinct_impersonators :: "queryset \<Rightarrow> nat" where
  "distinct_impersonators qs = card (impersonator_id ` set qs)"

text \<open>
  The impersonators collected by \<open>lookups\<close>, in the order of their insertion into
  the set.
\<close>

definition impersonators_of :: "queryset \<Rightarrow> user list" where
  "impersonators_of admin_qs =
     set_from [] (map impersonator (order_by_impersonator_first_name admin_qs))"

section \<open>Sample data\<close>

text \<open>
  Two staff users, one impersonated user and three log records; the first session is still
  open, and the first and the third record share their impersonator.
\<close>

definition zoe :: user where
  "zoe = \<lparr>user_id = 1, first_name = ''Zoe'', get_full_name = ''Zoe Young'', username = ''zoe''\<rparr>"

definition adam :: user where
  "adam = \<lparr>user_id = 2, first_name = ''Adam'', get_full_name = '''', username = ''adam''\<rparr>"

definition bob :: user where
  "bob = \<lparr>user_id = 3, first_name = ''Bob'', get_full_name = ''Bob Stone'', username = ''bob''\<rparr>"

definition log1 :: impersonation_log where
  "log1 = \<lparr>impersonator = zoe, impersonating = bob, session_key = ''k1'',
            session_started_at = 10, session_ended_at = None\<rparr>"

definition log2 :: impersonation_log where
  "log2 = \<lparr>impersonator = adam, impersonating = bob, session_key = ''k2'',
            session_started_at = 20, session_ended_at = Some 30\<rparr>"

definition log3 :: impersonation_log where
  "log3 = \<lparr>impersonator = zoe, impersonating = adam, session_key = ''k3'',
            session_started_at = 40, session_ended_at = Some 50\<rparr>"

text \<open>
  The conversion of the request values used below: \<open>int()\<close> reads the three
  numerals, the last of which lies beyond the key range, and rejects \<open>abc\<close>.
\<close>

definition sample_to_python :: "string \<Rightarrow> int option" where
  "sample_to_python =
     map_of [(''1'', 1), (''2'', 2), (''99999999999999999999'', 99999999999999999999)]"

lemmas sample_defs = zoe_def adam_def bob_def log1_def log2_def log3_def

section \<open>Properties of the set construction\<close>

lemma set_add_ids: "user_id ` set (set_add s u) = insert (user_id u) (user_id ` set s)"
  by (auto simp: set_add_def)

lemma set_add_distinct:
  "distinct (map user_id s) \<Longrightarrow> distinct (map user_id (set_add s u))"
  by (auto simp: set_add_def)

lemma set_add_subset: "set (set_add s u) \<subseteq> insert u (set s)"
  by (auto simp: set_add_def)

lemma set_from_ids: "user_id ` set (set_from s us) = user_id ` set s \<union> user_id ` set us"
  by (induction us arbitrary: s) (auto simp: set_add_ids)

lemma set_from_distinct:
  "distinct (map user_id s) \<Longrightarrow> distinct (map user_id (set_from s us))"
  by (induction us arbitrary: s) (auto simp: set_add_distinct)

lemma set_from_subset: "set (set_from s us) \<subseteq> set s \<union> set us"
proof (induction us arbitrary: s)
  case Nil
  show ?case by simp
next
  case (Cons u us)
  have "set (set_from (set_add s u) us) \<subseteq> set (set_add s u) \<union> set us"
    by (rule Cons.IH)
  also have "\<dots> \<subseteq> insert u (set s) \<union> set us"
    using set_add_subset [of s u] by blast
  finally show ?case by auto
qed

lemma impersonators_of_ids:
  "user_id ` set (impersonators_of qs) = impersonator_id ` set qs"
  by (auto simp: impersonators_of_def set_from_ids order_by_impersonator_first_name_def
      impersonator_id_def)

lemma impersonators_of_distinct: "distinct (map user_id (impersonators_of qs))"
  by (simp add: impersonators_of_def set_from_distinct)

lemma impersonators_of_subset: "set (impersonators_of qs) \<subseteq> impersonator ` set qs"
  using set_from_subset [of "[]" "map impersonator (order_by_impersonator_first_name qs)"]
  by (simp add: impersonators_of_def order_by_impersonator_first_name_def)

lemma impersonators_of_length: "length (impersonators_of qs) = distinct_impersonators qs"
proof -
  have "length (impersonators_of qs) = length (map user_id (impersonators_of qs))"
    by simp
  also have "\<dots> = card (set (map user_id (impersonators_of qs)))"
    using impersonators_of_distinct [of qs] by (rule distinct_card [symmetric])
  also have "\<dots> = distinct_impersonators qs"
    by (simp add: impersonators_of_ids distinct_impersonators_def)
  finally show ?thesis .
qed

lemma lookups_unfold:
  "ImpersonatorFilter_lookups set_iter cap qs =
     (if int (distinct_impersonators qs) > cap then []
      else map (\<lambda>i. (user_id i, friendly_name i)) (set_iter (impersonators_of qs)))"
  by (simp add: ImpersonatorFilter_lookups_def Let_def impersonators_of_length [symmetric]
      impersonators_of_def)

lemma ids_sample: "impersonator_id ` set [log1, log2, log3] = {1, 2}"
  by (auto simp: impersonator_id_def sample_defs)

lemma distinct_sample: "distinct_impersonators [log1, log2, log3] = 2"
  unfolding distinct_impersonators_def ids_sample by simp

lemma filter_sample:
  "filter (\<lambda>q. impersonator_id q = 1) [log1, log2, log3] = [log1, log3]"
  by (simp add: impersonator_id_def sample_defs)

section \<open>The session state filter\<close>

text \<open>
  Claim C1. With no selection the session state filter returns the collection as it is,
  and with the selection \<open>incomplete\<close> it returns exactly the records whose
  \<open>session_ended_at\<close> is null, in their order.
\<close>

theorem session_state_none_and_incomplete: 
  "SessionStateFilter_queryset None qs = qs \<and>
   SessionStateFilter_queryset (Some ''incomplete'') qs = filter (\<lambda>q. session_ended_at q = None) qs \<and>
   set (SessionStateFilter_queryset (Some ''incomplete'') qs) = {q \<in> set qs. session_ended_at q = None}"
  by (simp add: SessionStateFilter_queryset_def)

text \<open>
  Claim C7. The records kept under \<open>complete\<close> and those kept under \<open>incomplete\<close>
  are disjoint and together make up the input collection, also counted with multiplicity.
\<close>

theorem session_state_complete_complement:
  "set (SessionStateFilter_queryset (Some ''complete'') qs) \<inter>
     set (SessionStateFilter_queryset (Some ''incomplete'') qs) = {} \<and>
   set (SessionStateFilter_queryset (Some ''complete'') qs) \<union>
     set (SessionStateFilter_queryset (Some ''incomplete'') qs) = set qs \<and>
   set (SessionStateFilter_queryset (Some ''complete'') qs) =
     set qs - set (SessionStateFilter_queryset (Some ''incomplete'') qs) \<and>
   mset (SessionStateFilter_queryset (Some ''complete'') qs) +
     mset (SessionStateFilter_queryset (Some ''incomplete'') qs) = mset qs"
  by (auto simp: SessionStateFilter_queryset_def)

text \<open>
  Claim C9. Every selection other than \<open>incomplete\<close> and \<open>complete\<close>, an absent one
  and an arbitrary string included, leaves the collection unchanged; the method has no
  failing branch.
\<close>

theorem session_state_other_value:
  "v \<noteq> Some ''incomplete'' \<Longrightarrow> v \<noteq> Some ''complete'' \<Longrightarrow>
     SessionStateFilter_queryset v qs = qs"
  by (simp add: SessionStateFilter_queryset_def)

theorem session_state_other_value_witness:
  "Some ''bogus'' \<noteq> Some ''incomplete'' \<and> Some ''bogus'' \<noteq> Some ''complete'' \<and>
   SessionStateFilter_queryset (Some ''bogus'') [log1, log2, log3] = [log1, log2, log3]"
proof -
  have a: "Some ''bogus'' \<noteq> Some ''incomplete''" by simp
  have b: "Some ''bogus'' \<noteq> Some ''complete''" by simp
  show ?thesis using session_state_other_value [OF a b, of "[log1, log2, log3]"] by simp
qed

section \<open>The friendly name\<close>

text \<open>
  Claim C2. The friendly name of a user is the full name when that is not the empty string,
  and the username otherwise.
\<close>

theorem friendly_name_rule:
  "(get_full_name u \<noteq> '''' \<longrightarrow> friendly_name u = get_full_name u) \<and>
   (get_full_name u = '''' \<longrightarrow> friendly_name u = username u)"
  by (simp add: friendly_name_def)

theorem friendly_name_rule_witness:
  "friendly_name adam = ''adam'' \<and> friendly_name zoe = ''Zoe Young''"
  using friendly_name_rule [of adam] friendly_name_rule [of zoe] by (simp add: sample_defs)

section \<open>The impersonator filter\<close>

text \<open>
  Claim C3. When the number of distinct impersonator identities is at most the cap, and
  iterating the set visits each of its elements once, the option list has as many entries
  as there are distinct impersonators, no identity occurs twice in it, its identities are
  those of the collection, and each entry pairs the identity of an impersonator of the
  collection with that impersonator's friendly name.
\<close>

theorem lookups_within_cap:
  assumes perm: "\<forall>s. mset (set_iter s) = mset s"
    and cap: "int (distinct_impersonators qs) \<le> max_filter_size"
  shows "length (ImpersonatorFilter_lookups set_iter max_filter_size qs) = distinct_impersonators qs \<and>
    distinct (map fst (ImpersonatorFilter_lookups set_iter max_filter_size qs)) \<and>
    fst ` set (ImpersonatorFilter_lookups set_iter max_filter_size qs) = impersonator_id ` set qs \<and>
    set (ImpersonatorFilter_lookups set_iter max_filter_size qs)
      \<subseteq> (\<lambda>q. (impersonator_id q, friendly_name (impersonator q))) ` set qs"
proof -
  let ?imps = "impersonators_of qs"
  let ?L = "ImpersonatorFilter_lookups set_iter max_filter_size qs"
  have m: "mset (set_iter ?imps) = mset ?imps"
    using perm by blast
  have L: "?L = map (\<lambda>i. (user_id i, friendly_name i)) (set_iter ?imps)"
    using cap by (simp add: lookups_unfold)
  have fsts: "map fst ?L = map user_id (set_iter ?imps)"
    by (simp add: L comp_def)
  have s: "set (set_iter ?imps) = set ?imps"
    using m by (rule mset_eq_setD)
  have "length ?L = length ?imps"
    using mset_eq_length [OF m] by (simp add: L)
  then have len: "length ?L = distinct_impersonators qs"
    by (simp add: impersonators_of_length)
  have "mset (map user_id (set_iter ?imps)) = mset (map user_id ?imps)"
    using m by (metis mset_map)
  then have "distinct (map user_id (set_iter ?imps)) = distinct (map user_id ?imps)"
    by (rule mset_eq_imp_distinct_iff)
  then have dist: "distinct (map fst ?L)"
    by (simp add: fsts impersonators_of_distinct)
  have "fst ` set ?L = set (map fst ?L)"
    by simp
  also have "\<dots> = user_id ` set ?imps"
    by (simp only: fsts set_map s)
  finally have ids: "fst ` set ?L = impersonator_id ` set qs"
    by (simp add: impersonators_of_ids)
  have sub: "set ?L \<subseteq> (\<lambda>q. (impersonator_id q, friendly_name (impersonator q))) ` set qs"
  proof
    fix p
    assume "p \<in> set ?L"
    then obtain i where i: "i \<in> set ?imps" and p: "p = (user_id i, friendly_name i)"
      by (auto simp: L s)
    from i impersonators_of_subset [of qs] obtain q where "q \<in> set qs" and "i = impersonator q"
      by blast
    then show "p \<in> (\<lambda>q. (impersonator_id q, friendly_name (impersonator q))) ` set qs"
      by (auto simp: p impersonator_id_def)
  qed
  from len dist ids sub show ?thesis by blast
qed

theorem lookups_within_cap_witness:
  "(\<forall>s. mset (sort_key user_id s) = mset s) \<and>
   int (distinct_impersonators [log1, log2, log3]) \<le> 100 \<and>
   length (ImpersonatorFilter_lookups (sort_key user_id) 100 [log1, log2, log3]) = 2 \<and>
   distinct (map fst (ImpersonatorFilter_lookups (sort_key user_id) 100 [log1, log2, log3])) \<and>
   fst ` set (ImpersonatorFilter_lookups (sort_key user_id) 100 [log1, log2, log3]) = {1, 2}"
proof -
  have p: "\<forall>s. mset (sort_key user_id s) = mset s" by simp
  have c: "int (distinct_impersonators [log1, log2, log3]) \<le> 100"
    by (simp add: distinct_sample)
  show ?thesis
    using lookups_within_cap [OF p c] p c unfolding ids_sample distinct_sample by blast
qed

text \<open>
  Claim C4, as stated: the option list is empty exactly when the distinct count exceeds
  the cap. An empty collection refutes it: the list is empty although the count, zero,
  does not exceed the cap of 100.
\<close>

theorem lookups_empty_iff_over_cap_counterexample:
  "\<not> (ImpersonatorFilter_lookups (\<lambda>s. s) 100 [] = [] \<longleftrightarrow> int (distinct_impersonators []) > 100)"
  by (simp add: ImpersonatorFilter_lookups_def order_by_impersonator_first_name_def
      distinct_impersonators_def)

text \<open>
  Claim C4, amended. The option list is empty exactly when the distinct count exceeds the
  cap or the collection has no record; a count equal to the cap yields the full list.
\<close>

theorem lookups_empty_iff:
  assumes perm: "\<forall>s. mset (set_iter s) = mset s"
  shows "(ImpersonatorFilter_lookups set_iter max_filter_size qs = [] \<longleftrightarrow>
           int (distinct_impersonators qs) > max_filter_size \<or> qs = []) \<and>
         (int (distinct_impersonators qs) = max_filter_size \<longrightarrow>
           length (ImpersonatorFilter_lookups set_iter max_filter_size qs) = distinct_impersonators qs)"
proof -
  let ?imps = "impersonators_of qs"
  have m: "mset (set_iter ?imps) = mset ?imps"
    using perm by blast
  have len: "length (set_iter ?imps) = distinct_impersonators qs"
    using mset_eq_length [OF m] by (simp add: impersonators_of_length)
  have zero: "distinct_impersonators qs = 0 \<longleftrightarrow> qs = []"
    by (simp add: distinct_impersonators_def)
  have "set_iter ?imps = [] \<longleftrightarrow> qs = []"
    using len zero by (metis length_0_conv)
  then show ?thesis
    using len by (simp add: lookups_unfold)
qed

theorem lookups_empty_iff_witness:
  "(\<forall>s. mset (sort_key user_id s) = mset s) \<and>
   ImpersonatorFilter_lookups (sort_key user_id) 1 [log1, log2, log3] = [] \<and>
   ImpersonatorFilter_lookups (sort_key user_id) 2 [log1, log2, log3] \<noteq> [] \<and>
   length (ImpersonatorFilter_lookups (sort_key user_id) 2 [log1, log2, log3]) = 2"
proof -
  have p: "\<forall>s. mset (sort_key user_id s) = mset s" by simp
  show ?thesis
    using lookups_empty_iff [OF p, of 1 "[log1, log2, log3]"] lookups_empty_iff [OF p, of 2 "[log1, log2, log3]"] p
    by (simp add: distinct_sample)
qed

text \<open>
  Claim C6. The option list follows the iteration order of the set, not the order by
  first name that the queryset had: with primary keys 1 for Zoe and 2 for Adam, and a set
  iterated by ascending hash of the key, Zoe is listed before Adam.
\<close>

theorem lookups_not_in_first_name_order:
  "ImpersonatorFilter_lookups (sort_key user_id) 100 [log1, log2]
     = [(user_id zoe, friendly_name zoe), (user_id adam, friendly_name adam)] \<and>
   first_name adam < first_name zoe"
  by (simp add: ImpersonatorFilter_lookups_def order_by_impersonator_first_name_def
      set_add_def sample_defs)

text \<open>
  Claim C5, as stated: every non-empty selection returns exactly the records whose
  impersonator identity matches it. The selection \<open>abc\<close> refutes it: no record has an
  identity matching it, yet the filter does not return the empty collection, it raises
  \<open>ValueError\<close>.
\<close>

theorem impersonator_queryset_selection_counterexample:
  "ImpersonatorFilter_queryset sample_to_python (Some ''abc'') [log1, log2, log3]
     = Inl ValueError \<and>
   ImpersonatorFilter_queryset sample_to_python (Some ''abc'') [log1, log2, log3] \<noteq> Inr []"
  by (simp add: ImpersonatorFilter_queryset_def sample_to_python_def)

text \<open>
  Claim C5, amended. An absent or empty selection leaves the collection unchanged. A
  non-empty selection that denotes a key \<open>k\<close> of the key column returns exactly the
  records whose impersonator has that key. A non-empty selection that denotes no key
  raises \<open>ValueError\<close>, and one that denotes a key outside the range of the column
  raises \<open>OverflowError\<close>.
\<close>

theorem impersonator_queryset_selection:
  "ImpersonatorFilter_queryset to_python None qs = Inr qs \<and>
   ImpersonatorFilter_queryset to_python (Some '''') qs = Inr qs \<and>
   (v \<noteq> '''' \<and> to_python v = Some k \<and> key_in_range k \<longrightarrow>
      ImpersonatorFilter_queryset to_python (Some v) qs =
        Inr (filter (\<lambda>q. impersonator_id q = k) qs)) \<and>
   (v \<noteq> '''' \<and> to_python v = None \<longrightarrow>
      ImpersonatorFilter_queryset to_python (Some v) qs = Inl ValueError) \<and>
   (v \<noteq> '''' \<and> to_python v = Some k \<and> \<not> key_in_range k \<longrightarrow>
      ImpersonatorFilter_queryset to_python (Some v) qs = Inl OverflowError)"
  by (simp add: ImpersonatorFilter_queryset_def)

theorem impersonator_queryset_selection_witness:
  "ImpersonatorFilter_queryset sample_to_python None [log1, log2, log3]
     = Inr [log1, log2, log3] \<and>
   ImpersonatorFilter_queryset sample_to_python (Some ''1'') [log1, log2, log3]
     = Inr [log1, log3] \<and>
   ImpersonatorFilter_queryset sample_to_python (Some ''abc'') [log1, log2, log3]
     = Inl ValueError \<and>
   ImpersonatorFilter_queryset sample_to_python (Some ''99999999999999999999'')
     [log1, log2, log3] = Inl OverflowError"
  using
    impersonator_queryset_selection
      [of sample_to_python "[log1, log2, log3]" "''1''" 1]
    impersonator_queryset_selection
      [of sample_to_python "[log1, log2, log3]" "''abc''" 0]
    impersonator_queryset_selection
      [of sample_to_python "[log1, log2, log3]" "''99999999999999999999''"
        99999999999999999999]
  unfolding filter_sample by (simp add: sample_to_python_def key_in_range_def)

text \<open>
  Claim C10, as stated: every non-empty selection narrows the collection, also when the
  option list is suppressed. With a cap of 1 the two impersonators of the sample suppress
  the option list, and the selection \<open>abc\<close> does not narrow the collection to the
  records matching it, of which there are none: it raises \<open>ValueError\<close>.
\<close>

theorem impersonator_queryset_ignores_lookups_counterexample:
  "ImpersonatorFilter_lookups (sort_key user_id) 1 [log1, log2, log3] = [] \<and>
   ImpersonatorFilter_queryset sample_to_python (Some ''abc'') [log1, log2, log3] \<noteq> Inr [] \<and>
   ImpersonatorFilter_queryset sample_to_python (Some ''abc'') [log1, log2, log3]
     = Inl ValueError"
  by (simp add: lookups_unfold distinct_sample ImpersonatorFilter_queryset_def
      sample_to_python_def)

text \<open>
  Claim C10, amended. A non-empty selection is handed to the query layer whatever the
  option list holds: the outcome is determined by the value alone, the narrowing to the
  records of the key it denotes, or the failure of the query layer when it denotes no key
  of the column. In particular, when the option list is suppressed because the distinct
  count exceeds the cap, and likewise when the key is not among the options, a selection
  that denotes a key of the column still narrows the collection to the records of that
  impersonator.
\<close>

theorem impersonator_queryset_ignores_lookups:
  assumes "v \<noteq> ''''"
  shows "ImpersonatorFilter_queryset to_python (Some v) qs =
      (case to_python v of
         None \<Rightarrow> Inl ValueError
       | Some k \<Rightarrow>
           if key_in_range k then Inr (filter (\<lambda>q. impersonator_id q = k) qs)
           else Inl OverflowError) \<and>
    (to_python v = Some k \<and> key_in_range k \<longrightarrow>
       (int (distinct_impersonators qs) > max_filter_size \<longrightarrow>
          ImpersonatorFilter_lookups set_iter max_filter_size qs = []) \<and>
       (k \<notin> fst ` set (ImpersonatorFilter_lookups set_iter max_filter_size qs) \<longrightarrow>
          ImpersonatorFilter_queryset to_python (Some v) qs =
            Inr (filter (\<lambda>q. impersonator_id q = k) qs)) \<and>
       ImpersonatorFilter_queryset to_python (Some v) qs =
         Inr (filter (\<lambda>q. impersonator_id q = k) qs))"
  using assms by (simp add: ImpersonatorFilter_queryset_def lookups_unfold)

theorem impersonator_queryset_ignores_lookups_witness:
  "ImpersonatorFilter_lookups (sort_key user_id) 1 [log1, log2, log3] = [] \<and>
   ImpersonatorFilter_queryset sample_to_python (Some ''1'') [log1, log2, log3]
     = Inr [log1, log3]"
proof -
  have a: "''1'' \<noteq> ''''" by simp
  show ?thesis
    using impersonator_queryset_ignores_lookups
      [OF a, of sample_to_python "[log1, log2, log3]" 1 1 "sort_key user_id"]
    unfolding distinct_sample
    by (simp add: sample_to_python_def key_in_range_def impersonator_id_def sample_defs)
qed

section \<open>The admin class\<close>

text \<open>
  Claim C8. The admin class declares the five list columns, the six read-only fields and
  the three list filters below, and each of its two column methods returns the friendly
  name of the corresponding user of the record.
\<close>

theorem admin_descriptor:
  "list_display = [''impersonator_'', ''impersonating_'', ''session_key'',
      ''session_started_at'', ''duration''] \<and>
   readonly_fields = [''impersonator'', ''impersonating'', ''session_key'',
      ''session_started_at'', ''session_ended_at'', ''duration''] \<and>
   list_filter = [SessionStateFilter, ImpersonatorFilter, FieldName ''session_started_at''] \<and>
   impersonator_col obj = friendly_name (impersonator obj) \<and>
   impersonating_col obj = friendly_name (impersonating obj)"
  by (simp add: list_display_def readonly_fields_def list_filter_def impersonator_col_def
      impersonating_col_def)

end
